theory Spec2Isabelle
  imports Main "HOL-Library.Word"
begin

section \<open>The channel object of include/channelimpl.h\<close>

subsection \<open>Data\<close>

text \<open>
  Objects the channel only refers to (its public Channel, its Connection, its
  ChannelHandler) are addresses; a pointer is an optional address and \<open>None\<close> is
  \<open>nullptr\<close>.
\<close>

type_synonym addr = nat
type_synonym pointer = "addr option"

text \<open>The anonymous enum of the field \<open>_state\<close>.\<close>

datatype state = state_connected | state_closed

text \<open>
  The private fields of \<open>class ChannelImpl\<close>, in the order of the header. An Isabelle
  name cannot start with an underscore, so \<open>_id\<close> is \<open>m_id\<close> and so on.
\<close>

record ChannelImpl =
  m_parent :: pointer
  m_connection :: pointer
  m_handler :: pointer
  m_id :: "16 word"
  m_state :: state
  m_transaction :: bool

text \<open>
  The member functions of the ChannelHandler interface that the header calls, each with
  the arguments of the call: the channel pointer first, then the data of the event.
\<close>

datatype callback =
    onClosed pointer
  | onPaused pointer
  | onResumed pointer
  | onReady pointer
  | onError pointer string
  | onExchangeDeclared pointer
  | onExchangeDeleted pointer
  | onExchangeBound pointer
  | onExchangeUnbound pointer
  | onQueueDeclared pointer string "32 word" "32 word"
  | onQueueBound pointer
  | onQueueUnbound pointer
  | onQueueDeleted pointer "32 word"
  | onQueuePurged pointer "32 word"

text \<open>
  Modelled from the spec: the frame classes are not part of the header. Section 4 of
  the specification has one request frame for each send-type operation, built from the
  channel number and the arguments of the call, which are passed through verbatim.
  The exchange type is an enumeration declared elsewhere and is kept as its number,
  \<open>flags\<close> is a C++ \<open>int\<close> (its 32 bits), and an argument table is an ordered list of key-value pairs.
\<close>

type_synonym ExchangeType = nat
type_synonym flags = "32 word"
type_synonym Table = "(string \<times> string) list"

datatype Frame =
    ChannelFlowFrame "16 word" bool
  | TransactionSelectFrame "16 word"
  | TransactionCommitFrame "16 word"
  | TransactionRollbackFrame "16 word"
  | ExchangeDeclareFrame "16 word" string ExchangeType flags Table
  | ExchangeBindFrame "16 word" string string string flags Table
  | ExchangeUnbindFrame "16 word" string string string flags Table
  | ExchangeDeleteFrame "16 word" string flags
  | QueueDeclareFrame "16 word" string flags Table
  | QueueBindFrame "16 word" string string string flags Table
  | QueueUnbindFrame "16 word" string string string Table
  | QueuePurgeFrame "16 word" string flags
  | QueueDeleteFrame "16 word" string flags
  | ChannelCloseFrame "16 word"

text \<open>
  What a member function can observe and change: the channel object itself, the
  callbacks made on handler objects so far (receiver and call, oldest first), and the
  frames handed to the connection so far (oldest first). What a handler does inside a
  callback is application code: the model records that the call was made, with its
  arguments, and nothing more.
\<close>

record world =
  chan :: ChannelImpl
  calls :: "(addr \<times> callback) list"
  sent :: "Frame list"

text \<open>A member call through a null pointer is the only way a report could go wrong.\<close>

datatype error = null_dereference

subsection \<open>Queries\<close>

definition connected :: "ChannelImpl \<Rightarrow> bool" where
  "connected c = (m_state c = state_connected)"

definition id_of :: "ChannelImpl \<Rightarrow> 16 word" where
  "id_of c = m_id c"

subsection \<open>Report methods\<close>

text \<open>
  \<open>_handler->f(...)\<close>: the call \<open>cb\<close> is made on the object the pointer \<open>h\<close> refers to.
\<close>

definition invoke :: "pointer \<Rightarrow> callback \<Rightarrow> world \<Rightarrow> error + world" where
  "invoke h cb w =
     (case h of
        None \<Rightarrow> Inl null_dereference
      | Some a \<Rightarrow> Inr (w\<lparr>calls := calls w @ [(a, cb)]\<rparr>))"

text \<open>\<open>if (_handler) _handler->f(...)\<close>, the body shared by the report methods.\<close>

definition inform :: "(pointer \<Rightarrow> callback) \<Rightarrow> world \<Rightarrow> error + world" where
  "inform f w =
     (if m_handler (chan w) \<noteq> None
      then invoke (m_handler (chan w)) (f (m_parent (chan w))) w
      else Inr w)"

definition reportClosed :: "world \<Rightarrow> error + world" where
  "reportClosed w = inform onClosed (w\<lparr>chan := (chan w)\<lparr>m_state := state_closed\<rparr>\<rparr>)"

definition reportPaused :: "world \<Rightarrow> error + world" where
  "reportPaused w = inform onPaused w"

definition reportResumed :: "world \<Rightarrow> error + world" where
  "reportResumed w = inform onResumed w"

definition reportReady :: "world \<Rightarrow> error + world" where
  "reportReady w = inform onReady w"

definition reportChannelError :: "string \<Rightarrow> world \<Rightarrow> error + world" where
  "reportChannelError message w =
     inform (\<lambda>p. onError p message) (w\<lparr>chan := (chan w)\<lparr>m_state := state_closed\<rparr>\<rparr>)"

definition reportExchangeDeclared :: "world \<Rightarrow> error + world" where
  "reportExchangeDeclared w = inform onExchangeDeclared w"

definition reportExchangeDeleted :: "world \<Rightarrow> error + world" where
  "reportExchangeDeleted w = inform onExchangeDeleted w"

definition reportExchangeBound :: "world \<Rightarrow> error + world" where
  "reportExchangeBound w = inform onExchangeBound w"

definition reportExchangeUnbound :: "world \<Rightarrow> error + world" where
  "reportExchangeUnbound w = inform onExchangeUnbound w"

definition reportQueueDeclared :: "string \<Rightarrow> 32 word \<Rightarrow> 32 word \<Rightarrow> world \<Rightarrow> error + world" where
  "reportQueueDeclared queueName messageCount consumerCount w =
     inform (\<lambda>p. onQueueDeclared p queueName messageCount consumerCount) w"

definition reportQueueBound :: "world \<Rightarrow> error + world" where
  "reportQueueBound w = inform onQueueBound w"

definition reportQueueUnbound :: "world \<Rightarrow> error + world" where
  "reportQueueUnbound w = inform onQueueUnbound w"

definition reportQueueDeleted :: "32 word \<Rightarrow> world \<Rightarrow> error + world" where
  "reportQueueDeleted messageCount w = inform (\<lambda>p. onQueueDeleted p messageCount) w"

definition reportQueuePurged :: "32 word \<Rightarrow> world \<Rightarrow> error + world" where
  "reportQueuePurged messageCount w = inform (\<lambda>p. onQueuePurged p messageCount) w"

text \<open>A call of a report method, with its arguments.\<close>

datatype report =
    ReportClosed
  | ReportPaused
  | ReportResumed
  | ReportReady
  | ReportChannelError string
  | ReportExchangeDeclared
  | ReportExchangeDeleted
  | ReportExchangeBound
  | ReportExchangeUnbound
  | ReportQueueDeclared string "32 word" "32 word"
  | ReportQueueBound
  | ReportQueueUnbound
  | ReportQueueDeleted "32 word"
  | ReportQueuePurged "32 word"

fun do_report :: "report \<Rightarrow> world \<Rightarrow> error + world" where
  "do_report ReportClosed w = reportClosed w"
| "do_report ReportPaused w = reportPaused w"
| "do_report ReportResumed w = reportResumed w"
| "do_report ReportReady w = reportReady w"
| "do_report (ReportChannelError message) w = reportChannelError message w"
| "do_report ReportExchangeDeclared w = reportExchangeDeclared w"
| "do_report ReportExchangeDeleted w = reportExchangeDeleted w"
| "do_report ReportExchangeBound w = reportExchangeBound w"
| "do_report ReportExchangeUnbound w = reportExchangeUnbound w"
| "do_report (ReportQueueDeclared queueName messageCount consumerCount) w =
     reportQueueDeclared queueName messageCount consumerCount w"
| "do_report ReportQueueBound w = reportQueueBound w"
| "do_report ReportQueueUnbound w = reportQueueUnbound w"
| "do_report (ReportQueueDeleted messageCount) w = reportQueueDeleted messageCount w"
| "do_report (ReportQueuePurged messageCount) w = reportQueuePurged messageCount w"

text \<open>The callback that belongs to a report, for a given channel pointer.\<close>

fun matching :: "report \<Rightarrow> pointer \<Rightarrow> callback" where
  "matching ReportClosed p = onClosed p"
| "matching ReportPaused p = onPaused p"
| "matching ReportResumed p = onResumed p"
| "matching ReportReady p = onReady p"
| "matching (ReportChannelError message) p = onError p message"
| "matching ReportExchangeDeclared p = onExchangeDeclared p"
| "matching ReportExchangeDeleted p = onExchangeDeleted p"
| "matching ReportExchangeBound p = onExchangeBound p"
| "matching ReportExchangeUnbound p = onExchangeUnbound p"
| "matching (ReportQueueDeclared queueName messageCount consumerCount) p =
     onQueueDeclared p queueName messageCount consumerCount"
| "matching ReportQueueBound p = onQueueBound p"
| "matching ReportQueueUnbound p = onQueueUnbound p"
| "matching (ReportQueueDeleted messageCount) p = onQueueDeleted p messageCount"
| "matching (ReportQueuePurged messageCount) p = onQueuePurged p messageCount"

text \<open>The two reports that assign \<open>_state\<close>.\<close>

fun closing :: "report \<Rightarrow> bool" where
  "closing ReportClosed = True"
| "closing (ReportChannelError message) = True"
| "closing r = False"

subsection \<open>Construction\<close>

text \<open>
  Modelled from the spec: the body of the constructor is not in the header. The header
  gives its parameters (parent, connection, handler) and the default member initialisers
  \<open>_state = state_connected\<close> and \<open>_transaction = false\<close>; section 3 says that the
  channel starts Connected with the transaction flag false and that its number is
  assigned at construction. The code that assigns the number is missing, so the number
  is a parameter.
\<close>

definition new_ChannelImpl :: "pointer \<Rightarrow> pointer \<Rightarrow> pointer \<Rightarrow> 16 word \<Rightarrow> ChannelImpl" where
  "new_ChannelImpl parent connection handler number =
     \<lparr>m_parent = parent, m_connection = connection, m_handler = handler,
      m_id = number, m_state = state_connected, m_transaction = False\<rparr>"

subsection \<open>Send-type operations\<close>

text \<open>
  The connection is a collaborator outside the header: it is handed a frame and answers
  with a \<open>size_t\<close>, the number of bytes sent. It is a parameter of the model; its answer
  may depend on the frames it was handed before. The width of \<open>size_t\<close> is the length
  of the word type.
\<close>

type_synonym 'a Connection = "Frame list \<Rightarrow> Frame \<Rightarrow> 'a word"

text \<open>
  Modelled from the spec: the body of \<open>ChannelImpl::send\<close> is not in the header, only its
  declaration \<open>size_t send(const Frame &frame)\<close>. Section 6: the frame is handed to the
  connection for transmission, and the result is the number of bytes sent.
\<close>

definition send :: "'a::len Connection \<Rightarrow> Frame \<Rightarrow> world \<Rightarrow> 'a word \<times> world" where
  "send conn frame w = (conn (sent w) frame, w\<lparr>sent := sent w @ [frame]\<rparr>)"

text \<open>
  Modelled from the spec: the contract that sections 4.4 and 7 give to every send-type
  operation, whose bodies are not in the header. If the connectivity state is not
  Connected the operation fails immediately (false, nothing sent); otherwise it builds
  its frame, sends it and returns the send status. The state of the channel is not
  changed, also when the send fails.
\<close>

definition request :: "'a::len Connection \<Rightarrow> (16 word \<Rightarrow> Frame) \<Rightarrow> world \<Rightarrow> bool \<times> world" where
  "request conn build w =
     (if \<not> connected (chan w) then (False, w)
      else case send conn (build (m_id (chan w))) w of (n, w') \<Rightarrow> (n \<noteq> 0, w'))"

text \<open>Modelled from the spec: the body of \<open>pause\<close> is not in the header; section 4.2: asks the broker to stop delivering messages on this channel.\<close>

definition pause :: "'a::len Connection \<Rightarrow> world \<Rightarrow> bool \<times> world" where
  "pause conn w = request conn (\<lambda>i. ChannelFlowFrame i False) w"

text \<open>Modelled from the spec: the body of \<open>resume\<close> is not in the header; section 4.2: symmetric to pause, asks the broker to resume delivery.\<close>

definition resume :: "'a::len Connection \<Rightarrow> world \<Rightarrow> bool \<times> world" where
  "resume conn w = request conn (\<lambda>i. ChannelFlowFrame i True) w"

text \<open>Modelled from the spec: the body of \<open>startTransaction\<close> is not in the header; section 4.3: sends a transaction-start request; the transaction flag is not set by this call.\<close>

definition startTransaction :: "'a::len Connection \<Rightarrow> world \<Rightarrow> bool \<times> world" where
  "startTransaction conn w = request conn (\<lambda>i. TransactionSelectFrame i) w"

text \<open>Modelled from the spec: the body of \<open>commitTransaction\<close> is not in the header; section 4.3: sends a commit request, without checking the transaction flag locally.\<close>

definition commitTransaction :: "'a::len Connection \<Rightarrow> world \<Rightarrow> bool \<times> world" where
  "commitTransaction conn w = request conn (\<lambda>i. TransactionCommitFrame i) w"

text \<open>Modelled from the spec: the body of \<open>rollbackTransaction\<close> is not in the header; section 4.3: symmetric to commit.\<close>

definition rollbackTransaction :: "'a::len Connection \<Rightarrow> world \<Rightarrow> bool \<times> world" where
  "rollbackTransaction conn w = request conn (\<lambda>i. TransactionRollbackFrame i) w"

text \<open>Modelled from the spec: the body of \<open>declareExchange\<close> is not in the header; section 4.4: declare exchange (name, type, flags, arguments).\<close>

definition declareExchange :: "'a::len Connection \<Rightarrow> string \<Rightarrow> ExchangeType \<Rightarrow> flags \<Rightarrow> Table \<Rightarrow> world \<Rightarrow> bool \<times> world" where
  "declareExchange conn name type flags arguments w = request conn (\<lambda>i. ExchangeDeclareFrame i name type flags arguments) w"

text \<open>Modelled from the spec: the body of \<open>bindExchange\<close> is not in the header; section 4.4: bind exchange to exchange (source, target, routing key, flags, arguments).\<close>

definition bindExchange :: "'a::len Connection \<Rightarrow> string \<Rightarrow> string \<Rightarrow> string \<Rightarrow> flags \<Rightarrow> Table \<Rightarrow> world \<Rightarrow> bool \<times> world" where
  "bindExchange conn source target routingkey flags arguments w = request conn (\<lambda>i. ExchangeBindFrame i source target routingkey flags arguments) w"

text \<open>Modelled from the spec: the body of \<open>unbindExchange\<close> is not in the header; section 4.4: unbind exchange from exchange, same shape as the binding.\<close>

definition unbindExchange :: "'a::len Connection \<Rightarrow> string \<Rightarrow> string \<Rightarrow> string \<Rightarrow> flags \<Rightarrow> Table \<Rightarrow> world \<Rightarrow> bool \<times> world" where
  "unbindExchange conn source target routingkey flags arguments w = request conn (\<lambda>i. ExchangeUnbindFrame i source target routingkey flags arguments) w"

text \<open>Modelled from the spec: the body of \<open>removeExchange\<close> is not in the header; section 4.4: delete exchange (name, flags).\<close>

definition removeExchange :: "'a::len Connection \<Rightarrow> string \<Rightarrow> flags \<Rightarrow> world \<Rightarrow> bool \<times> world" where
  "removeExchange conn name flags w = request conn (\<lambda>i. ExchangeDeleteFrame i name flags) w"

text \<open>Modelled from the spec: the body of \<open>declareQueue\<close> is not in the header; section 4.4: declare queue (name, flags, arguments).\<close>

definition declareQueue :: "'a::len Connection \<Rightarrow> string \<Rightarrow> flags \<Rightarrow> Table \<Rightarrow> world \<Rightarrow> bool \<times> world" where
  "declareQueue conn name flags arguments w = request conn (\<lambda>i. QueueDeclareFrame i name flags arguments) w"

text \<open>Modelled from the spec: the body of \<open>bindQueue\<close> is not in the header; section 4.4: bind queue to exchange (exchange name, queue name, routing key, flags, arguments).\<close>

definition bindQueue :: "'a::len Connection \<Rightarrow> string \<Rightarrow> string \<Rightarrow> string \<Rightarrow> flags \<Rightarrow> Table \<Rightarrow> world \<Rightarrow> bool \<times> world" where
  "bindQueue conn exchangeName queueName routingkey flags arguments w = request conn (\<lambda>i. QueueBindFrame i exchangeName queueName routingkey flags arguments) w"

text \<open>Modelled from the spec: the body of \<open>unbindQueue\<close> is not in the header; section 4.4: unbind queue from exchange, same shape without flags.\<close>

definition unbindQueue :: "'a::len Connection \<Rightarrow> string \<Rightarrow> string \<Rightarrow> string \<Rightarrow> Table \<Rightarrow> world \<Rightarrow> bool \<times> world" where
  "unbindQueue conn exchangeName queueName routingkey arguments w = request conn (\<lambda>i. QueueUnbindFrame i exchangeName queueName routingkey arguments) w"

text \<open>Modelled from the spec: the body of \<open>purgeQueue\<close> is not in the header; section 4.4: purge queue (name, flags).\<close>

definition purgeQueue :: "'a::len Connection \<Rightarrow> string \<Rightarrow> flags \<Rightarrow> world \<Rightarrow> bool \<times> world" where
  "purgeQueue conn name flags w = request conn (\<lambda>i. QueuePurgeFrame i name flags) w"

text \<open>Modelled from the spec: the body of \<open>removeQueue\<close> is not in the header; section 4.4: delete queue (name, flags).\<close>

definition removeQueue :: "'a::len Connection \<Rightarrow> string \<Rightarrow> flags \<Rightarrow> world \<Rightarrow> bool \<times> world" where
  "removeQueue conn name flags w = request conn (\<lambda>i. QueueDeleteFrame i name flags) w"

text \<open>Modelled from the spec: the body of \<open>close\<close> is not in the header; section 4.1: if already Closed, failure and no frame; otherwise a channel-close request frame is built and sent, and the result is whether the send succeeded.\<close>

definition close :: "'a::len Connection \<Rightarrow> world \<Rightarrow> bool \<times> world" where
  "close conn w = request conn (\<lambda>i. ChannelCloseFrame i) w"

subsection \<open>Histories\<close>

text \<open>A call of a send-type operation, with its arguments.\<close>

datatype operation =
    Pause
  | Resume
  | StartTransaction
  | CommitTransaction
  | RollbackTransaction
  | DeclareExchange string ExchangeType flags Table
  | BindExchange string string string flags Table
  | UnbindExchange string string string flags Table
  | RemoveExchange string flags
  | DeclareQueue string flags Table
  | BindQueue string string string flags Table
  | UnbindQueue string string string Table
  | PurgeQueue string flags
  | RemoveQueue string flags
  | Close

fun do_operation :: "'a::len Connection \<Rightarrow> operation \<Rightarrow> world \<Rightarrow> bool \<times> world" where
  "do_operation conn Pause w = pause conn w"
| "do_operation conn Resume w = resume conn w"
| "do_operation conn StartTransaction w = startTransaction conn w"
| "do_operation conn CommitTransaction w = commitTransaction conn w"
| "do_operation conn RollbackTransaction w = rollbackTransaction conn w"
| "do_operation conn (DeclareExchange name type flags arguments) w = declareExchange conn name type flags arguments w"
| "do_operation conn (BindExchange source target routingkey flags arguments) w = bindExchange conn source target routingkey flags arguments w"
| "do_operation conn (UnbindExchange source target routingkey flags arguments) w = unbindExchange conn source target routingkey flags arguments w"
| "do_operation conn (RemoveExchange name flags) w = removeExchange conn name flags w"
| "do_operation conn (DeclareQueue name flags arguments) w = declareQueue conn name flags arguments w"
| "do_operation conn (BindQueue exchangeName queueName routingkey flags arguments) w = bindQueue conn exchangeName queueName routingkey flags arguments w"
| "do_operation conn (UnbindQueue exchangeName queueName routingkey arguments) w = unbindQueue conn exchangeName queueName routingkey arguments w"
| "do_operation conn (PurgeQueue name flags) w = purgeQueue conn name flags w"
| "do_operation conn (RemoveQueue name flags) w = removeQueue conn name flags w"
| "do_operation conn Close w = close conn w"

text \<open>
  What happens to a channel is a sequence of calls made by the application and of
  reports made by the connection. A history stops at the first error.
\<close>

datatype event = Call operation | Reply report

fun step :: "'a::len Connection \<Rightarrow> event \<Rightarrow> world \<Rightarrow> error + world" where
  "step conn (Call op) w = Inr (snd (do_operation conn op w))"
| "step conn (Reply r) w = do_report r w"

fun run :: "'a::len Connection \<Rightarrow> event list \<Rightarrow> world \<Rightarrow> error + world" where
  "run conn [] w = Inr w"
| "run conn (e # es) w = (case step conn e w of Inl x \<Rightarrow> Inl x | Inr w' \<Rightarrow> run conn es w')"

text \<open>The channel object a report leaves behind, if the report returns.\<close>

definition chan_after :: "error + world \<Rightarrow> ChannelImpl option" where
  "chan_after res = (case res of Inl x \<Rightarrow> None | Inr w \<Rightarrow> Some (chan w))"

text \<open>A connection that accepts every frame and one that accepts none.\<close>

definition accepting :: "64 Connection" where
  "accepting history frame = 8"

definition failing :: "64 Connection" where
  "failing history frame = 0"

subsection \<open>Example channels\<close>

text \<open>
  Three channels with number 1: a connected one with a handler at address 3, a connected
  one without handler, and one that is closed already and whose handler at address 3
  has been told so.
\<close>

definition observed :: world where
  "observed =
     \<lparr>chan = \<lparr>m_parent = Some 1, m_connection = Some 2, m_handler = Some 3, m_id = 1,
              m_state = state_connected, m_transaction = False\<rparr>,
      calls = [], sent = []\<rparr>"

definition unobserved :: world where
  "unobserved =
     \<lparr>chan = \<lparr>m_parent = Some 1, m_connection = Some 2, m_handler = None, m_id = 1,
              m_state = state_connected, m_transaction = False\<rparr>,
      calls = [], sent = []\<rparr>"

definition closed_before :: world where
  "closed_before =
     \<lparr>chan = \<lparr>m_parent = Some 1, m_connection = Some 2, m_handler = Some 3, m_id = 1,
              m_state = state_closed, m_transaction = False\<rparr>,
      calls = [(3, onClosed (Some 1))], sent = []\<rparr>"

section \<open>Basic facts\<close>

lemmas report_defs =
  reportClosed_def reportPaused_def reportResumed_def reportReady_def
  reportChannelError_def reportExchangeDeclared_def reportExchangeDeleted_def
  reportExchangeBound_def reportExchangeUnbound_def reportQueueDeclared_def
  reportQueueBound_def reportQueueUnbound_def reportQueueDeleted_def
  reportQueuePurged_def

lemmas operation_defs =
  pause_def resume_def startTransaction_def commitTransaction_def
  rollbackTransaction_def declareExchange_def bindExchange_def unbindExchange_def
  removeExchange_def declareQueue_def bindQueue_def unbindQueue_def purgeQueue_def
  removeQueue_def close_def

lemma inform_absent:
  "m_handler (chan w) = None \<Longrightarrow> inform f w = Inr w"
  by (simp add: inform_def)

lemma inform_present:
  "m_handler (chan w) = Some h \<Longrightarrow>
   inform f w = Inr (w\<lparr>calls := calls w @ [(h, f (m_parent (chan w)))]\<rparr>)"
  by (simp add: inform_def invoke_def)

lemma inform_returns:
  "\<exists>w'. inform f w = Inr w' \<and> chan w' = chan w \<and> sent w' = sent w"
  by (cases "m_handler (chan w)") (simp_all add: inform_absent inform_present)

lemma do_report_inform:
  "do_report r w =
     inform (matching r) (if closing r then w\<lparr>chan := (chan w)\<lparr>m_state := state_closed\<rparr>\<rparr> else w)"
  by (cases r) (simp_all add: report_defs inform_def)

lemma do_report_returns:
  "\<exists>w'. do_report r w = Inr w' \<and> sent w' = sent w \<and>
     chan w' = (if closing r then (chan w)\<lparr>m_state := state_closed\<rparr> else chan w)"
proof -
  let ?v = "if closing r then w\<lparr>chan := (chan w)\<lparr>m_state := state_closed\<rparr>\<rparr> else w"
  obtain w' where "inform (matching r) ?v = Inr w'" "chan w' = chan ?v" "sent w' = sent ?v"
    using inform_returns by blast
  then show ?thesis by (auto simp add: do_report_inform)
qed

lemma request_not_connected:
  "\<not> connected (chan w) \<Longrightarrow> request conn build w = (False, w)"
  by (simp add: request_def)

lemma request_connected:
  "connected (chan w) \<Longrightarrow>
   request conn build w =
     (conn (sent w) (build (m_id (chan w))) \<noteq> 0, w\<lparr>sent := sent w @ [build (m_id (chan w))]\<rparr>)"
  by (simp add: request_def send_def)

lemma request_chan: "chan (snd (request conn build w)) = chan w"
  by (cases "connected (chan w)") (simp_all add: request_not_connected request_connected)

lemma do_operation_request:
  "\<exists>build. do_operation conn op w = request conn build w"
  by (cases op) (auto simp add: operation_defs)

lemma do_operation_chan: "chan (snd (do_operation conn op w)) = chan w"
  using do_operation_request [of conn op w] by (auto simp add: request_chan)

lemma do_operation_not_connected:
  "\<not> connected (chan w) \<Longrightarrow> do_operation conn op w = (False, w)"
  using do_operation_request [of conn op w] by (auto simp add: request_not_connected)

lemma step_returns:
  "\<exists>w'. step conn e w = Inr w' \<and>
     m_transaction (chan w') = m_transaction (chan w) \<and>
     m_id (chan w') = m_id (chan w) \<and>
     (m_state (chan w) = state_closed \<longrightarrow> m_state (chan w') = state_closed)"
proof (cases e)
  case (Call op)
  then show ?thesis by (simp add: do_operation_chan)
next
  case (Reply r)
  then show ?thesis using do_report_returns [of r w] by auto
qed

lemma run_returns:
  "\<exists>w'. run conn es w = Inr w' \<and>
     m_transaction (chan w') = m_transaction (chan w) \<and>
     m_id (chan w') = m_id (chan w) \<and>
     (m_state (chan w) = state_closed \<longrightarrow> m_state (chan w') = state_closed)"
proof (induction es arbitrary: w)
  case Nil
  show ?case by simp
next
  case (Cons e es)
  obtain w1 where s: "step conn e w = Inr w1"
      "m_transaction (chan w1) = m_transaction (chan w)"
      "m_id (chan w1) = m_id (chan w)"
      "m_state (chan w) = state_closed \<longrightarrow> m_state (chan w1) = state_closed"
    using step_returns by blast
  obtain w2 where r: "run conn es w1 = Inr w2"
      "m_transaction (chan w2) = m_transaction (chan w1)"
      "m_id (chan w2) = m_id (chan w1)"
      "m_state (chan w1) = state_closed \<longrightarrow> m_state (chan w2) = state_closed"
    using Cons.IH by blast
  from s r show ?case by simp
qed

section \<open>The claims\<close>

text \<open>
  Claim C1. Once \<open>reportClosed\<close> or \<open>reportChannelError\<close> has returned, whatever
  calls and reports follow, the history goes on without error, \<open>connected()\<close> is false
  at its end, and there every send-type operation, with any arguments, returns false
  and leaves the channel, the callbacks made and the frames handed to the connection as
  they were.
\<close>

theorem closed_is_permanent:
  "(\<exists>w1 w2. reportClosed w = Inr w1 \<and> run conn es w1 = Inr w2 \<and>
      \<not> connected (chan w2) \<and> (\<forall>op. do_operation conn op w2 = (False, w2))) \<and>
   (\<exists>w1 w2. reportChannelError message w = Inr w1 \<and> run conn es w1 = Inr w2 \<and>
      \<not> connected (chan w2) \<and> (\<forall>op. do_operation conn op w2 = (False, w2)))"
proof -
  have "\<exists>w1 w2. do_report r w = Inr w1 \<and> run conn es w1 = Inr w2 \<and>
      \<not> connected (chan w2) \<and> (\<forall>op. do_operation conn op w2 = (False, w2))"
    if cl: "closing r" for r
  proof -
    obtain w1 where w1: "do_report r w = Inr w1" "m_state (chan w1) = state_closed"
      using do_report_returns [of r w] cl by auto
    obtain w2 where w2: "run conn es w1 = Inr w2" "m_state (chan w2) = state_closed"
      using run_returns [of conn es w1] w1 by auto
    from w2 have "\<not> connected (chan w2)" by (simp add: connected_def)
    with w1 w2 show ?thesis by (auto simp add: do_operation_not_connected)
  qed
  from this [of ReportClosed] this [of "ReportChannelError message"]
  show ?thesis by simp
qed

theorem closed_is_permanent_witness:
  "\<exists>w1 w2. reportClosed observed = Inr w1 \<and>
     run accepting [Call Resume, Reply ReportReady, Call (DeclareQueue ''q1'' 0 [])] w1 = Inr w2 \<and>
     \<not> connected (chan w2) \<and> do_operation accepting Close w2 = (False, w2)"
  using closed_is_permanent
    [of observed accepting "[Call Resume, Reply ReportReady, Call (DeclareQueue ''q1'' 0 [])]"]
  by blast

text \<open>
  Claim C2. On a channel that is not connected each of the fifteen send-type
  operations returns false and changes nothing: no frame is handed to the connection.
\<close>

theorem not_connected_fails:
  assumes "\<not> connected (chan w)"
  shows "pause conn w = (False, w) \<and>
     resume conn w = (False, w) \<and>
     startTransaction conn w = (False, w) \<and>
     commitTransaction conn w = (False, w) \<and>
     rollbackTransaction conn w = (False, w) \<and>
     declareExchange conn name type flags arguments w = (False, w) \<and>
     bindExchange conn source target routingkey flags arguments w = (False, w) \<and>
     unbindExchange conn source target routingkey flags arguments w = (False, w) \<and>
     removeExchange conn name flags w = (False, w) \<and>
     declareQueue conn name flags arguments w = (False, w) \<and>
     bindQueue conn exchangeName queueName routingkey flags arguments w = (False, w) \<and>
     unbindQueue conn exchangeName queueName routingkey arguments w = (False, w) \<and>
     purgeQueue conn name flags w = (False, w) \<and>
     removeQueue conn name flags w = (False, w) \<and>
     close conn w = (False, w)"
  using assms unfolding operation_defs by (simp add: request_not_connected)

theorem not_connected_fails_witness:
  "\<not> connected (chan closed_before) \<and>
   pause accepting closed_before = (False, closed_before) \<and>
   startTransaction accepting closed_before = (False, closed_before) \<and>
   declareQueue accepting ''q1'' 0 [] closed_before = (False, closed_before) \<and>
   close accepting closed_before = (False, closed_before)"
  using not_connected_fails
    [where w = closed_before and conn = accepting and name = "''q1''" and type = 0
       and flags = 0 and arguments = "[]" and source = "''a''" and target = "''b''"
       and routingkey = "''k''" and exchangeName = "''x''" and queueName = "''q1''"]
  by (simp add: closed_before_def connected_def)

text \<open>
  Claim C3 as stated fails. A start-transaction request has been sent on channel 1 and
  the flag is false; \<open>reportReady\<close> is called; the flag is still false.
\<close>

theorem reportReady_keeps_transaction_flag:
  "chan_after (reportReady
     \<lparr>chan = \<lparr>m_parent = Some 1, m_connection = Some 2, m_handler = Some 3, m_id = 1,
              m_state = state_connected, m_transaction = False\<rparr>,
      calls = [], sent = [TransactionSelectFrame 1]\<rparr>) =
   Some \<lparr>m_parent = Some 1, m_connection = Some 2, m_handler = Some 3, m_id = 1,
         m_state = state_connected, m_transaction = False\<rparr>"
  by (simp add: reportReady_def inform_def invoke_def chan_after_def)

text \<open>
  Claim C3, as amended. The transaction flag is false after construction, is not
  changed by \<open>startTransaction\<close>, and is not changed by \<open>reportReady\<close> or by any other
  report: the channel has no report of a transaction acknowledgment. So the flag is
  still false at the end of every history of a new channel.
\<close>

theorem transaction_flag_unchanged:
  "m_transaction (new_ChannelImpl parent connection handler number) = False \<and>
   m_transaction (chan (snd (startTransaction conn w))) = m_transaction (chan w) \<and>
   (\<forall>r. \<exists>w'. do_report r w = Inr w' \<and> m_transaction (chan w') = m_transaction (chan w)) \<and>
   (\<exists>w'. run conn es \<lparr>chan = new_ChannelImpl parent connection handler number,
                       calls = [], sent = []\<rparr> = Inr w' \<and> \<not> m_transaction (chan w'))"
proof -
  have "\<exists>w'. do_report r w = Inr w' \<and> m_transaction (chan w') = m_transaction (chan w)" for r
    using do_report_returns [of r w] by auto
  moreover have "\<exists>w'. run conn es \<lparr>chan = new_ChannelImpl parent connection handler number,
                       calls = [], sent = []\<rparr> = Inr w' \<and> \<not> m_transaction (chan w')"
    using run_returns [of conn es "\<lparr>chan = new_ChannelImpl parent connection handler number,
                       calls = [], sent = []\<rparr>"]
    by (auto simp add: new_ChannelImpl_def)
  ultimately show ?thesis
    by (simp add: new_ChannelImpl_def startTransaction_def request_chan)
qed

theorem transaction_flag_unchanged_witness:
  "\<exists>w'. run accepting [Call StartTransaction, Reply ReportReady, Call CommitTransaction]
          \<lparr>chan = new_ChannelImpl (Some 1) (Some 2) (Some 3) 1, calls = [], sent = []\<rparr> = Inr w' \<and>
        \<not> m_transaction (chan w')"
  using transaction_flag_unchanged
    [where conn = accepting and parent = "Some 1" and connection = "Some 2"
       and handler = "Some 3" and number = 1 and w = observed
       and es = "[Call StartTransaction, Reply ReportReady, Call CommitTransaction]"]
  by blast

text \<open>
  Claim C4. The twelve reports other than \<open>reportClosed\<close> and \<open>reportChannelError\<close>
  leave the channel object as it was, every field of it. These two change the field
  \<open>_state\<close> and nothing else. No send-type operation changes the channel object. So a
  step of a history that changes the connectivity state is one of these two reports.
\<close>

theorem only_close_reports_change_state:
  "chan_after (reportPaused w) = Some (chan w) \<and>
     chan_after (reportResumed w) = Some (chan w) \<and>
     chan_after (reportReady w) = Some (chan w) \<and>
     chan_after (reportExchangeDeclared w) = Some (chan w) \<and>
     chan_after (reportExchangeDeleted w) = Some (chan w) \<and>
     chan_after (reportExchangeBound w) = Some (chan w) \<and>
     chan_after (reportExchangeUnbound w) = Some (chan w) \<and>
     chan_after (reportQueueDeclared queueName messageCount consumerCount w) = Some (chan w) \<and>
     chan_after (reportQueueBound w) = Some (chan w) \<and>
     chan_after (reportQueueUnbound w) = Some (chan w) \<and>
     chan_after (reportQueueDeleted messageCount w) = Some (chan w) \<and>
     chan_after (reportQueuePurged messageCount w) = Some (chan w) \<and>
     chan_after (reportClosed w) = Some ((chan w)\<lparr>m_state := state_closed\<rparr>) \<and>
     chan_after (reportChannelError message w) = Some ((chan w)\<lparr>m_state := state_closed\<rparr>) \<and>
     (\<forall>op. chan (snd (do_operation conn op w)) = chan w) \<and>
     (\<forall>e w'. step conn e w = Inr w' \<and> m_state (chan w') \<noteq> m_state (chan w) \<longrightarrow>
        e = Reply ReportClosed \<or> (\<exists>m. e = Reply (ReportChannelError m)))"
proof -
  have a: "chan_after (inform f v) = Some (chan v)" for f v
    using inform_returns [of f v] by (auto simp add: chan_after_def)
  have b: "e = Reply ReportClosed \<or> (\<exists>m. e = Reply (ReportChannelError m))"
    if "step conn e w = Inr w'" "m_state (chan w') \<noteq> m_state (chan w)" for e w'
  proof (cases e)
    case (Call op)
    with that show ?thesis using do_operation_chan [of conn op w] by auto
  next
    case (Reply r)
    with that have "closing r" using do_report_returns [of r w] by (auto split: if_splits)
    with Reply show ?thesis by (cases r) simp_all
  qed
  show ?thesis
    unfolding report_defs using b by (simp add: a do_operation_chan)
qed

theorem only_close_reports_change_state_witness:
  "(\<exists>w'. step accepting (Reply ReportClosed) observed = Inr w' \<and>
      m_state (chan w') \<noteq> m_state (chan observed)) \<and>
   chan_after (reportReady observed) = Some (chan observed) \<and>
   chan_after (reportPaused observed) = Some (chan observed) \<and>
   chan_after (reportClosed observed) = Some ((chan observed)\<lparr>m_state := state_closed\<rparr>)"
  using only_close_reports_change_state
    [where w = observed and conn = accepting and message = "''gone''"
       and queueName = "''q1''" and messageCount = 0 and consumerCount = 0]
  by (simp add: observed_def reportClosed_def inform_def invoke_def)

text \<open>
  Claim C5. Without a handler every report method returns normally and makes no
  callback: the two closing reports only set the state, the other twelve change
  nothing at all.
\<close>

theorem report_without_handler:
  assumes "m_handler (chan w) = None"
  shows "reportClosed w = Inr (w\<lparr>chan := (chan w)\<lparr>m_state := state_closed\<rparr>\<rparr>) \<and>
     reportChannelError message w = Inr (w\<lparr>chan := (chan w)\<lparr>m_state := state_closed\<rparr>\<rparr>) \<and>
     reportPaused w = Inr (w) \<and>
     reportResumed w = Inr (w) \<and>
     reportReady w = Inr (w) \<and>
     reportExchangeDeclared w = Inr (w) \<and>
     reportExchangeDeleted w = Inr (w) \<and>
     reportExchangeBound w = Inr (w) \<and>
     reportExchangeUnbound w = Inr (w) \<and>
     reportQueueDeclared queueName messageCount consumerCount w = Inr (w) \<and>
     reportQueueBound w = Inr (w) \<and>
     reportQueueUnbound w = Inr (w) \<and>
     reportQueueDeleted messageCount w = Inr (w) \<and>
     reportQueuePurged messageCount w = Inr (w) \<and>
     (\<forall>r. \<exists>w'. do_report r w = Inr w' \<and> calls w' = calls w)"
proof -
  have "\<exists>w'. do_report r w = Inr w' \<and> calls w' = calls w" for r
    using assms by (cases "closing r") (simp_all add: do_report_inform inform_absent)
  moreover have "inform f w = Inr w" for f
    using assms by (rule inform_absent)
  moreover have "inform f (w\<lparr>chan := (chan w)\<lparr>m_state := state_closed\<rparr>\<rparr>) = Inr (w\<lparr>chan := (chan w)\<lparr>m_state := state_closed\<rparr>\<rparr>)" for f
    using assms by (simp add: inform_absent)
  ultimately show ?thesis
    unfolding report_defs by simp
qed

theorem report_without_handler_witness:
  "m_handler (chan unobserved) = None \<and>
   reportClosed unobserved =
     Inr (unobserved\<lparr>chan := (chan unobserved)\<lparr>m_state := state_closed\<rparr>\<rparr>) \<and>
   reportReady unobserved = Inr unobserved \<and>
   reportQueueDeclared ''q1'' 0 0 unobserved = Inr unobserved \<and>
   (\<forall>r. \<exists>w'. do_report r unobserved = Inr w' \<and> calls w' = calls unobserved)"
  using report_without_handler
    [where w = unobserved and message = "''gone''" and queueName = "''q1''"
       and messageCount = 0 and consumerCount = 0]
  by (simp add: unobserved_def)

text \<open>
  Claim C6. With a handler at address \<open>h\<close> every report method makes one callback, on
  \<open>h\<close>: the one of the same name, with the parent pointer and with the name, the
  message and the counters it was given, unchanged.
\<close>

theorem report_calls_matching_callback:
  assumes "m_handler (chan w) = Some h"
  shows "reportClosed w = Inr (w\<lparr>chan := (chan w)\<lparr>m_state := state_closed\<rparr>, calls := calls w @ [(h, onClosed (m_parent (chan w)))]\<rparr>) \<and>
     reportChannelError message w = Inr (w\<lparr>chan := (chan w)\<lparr>m_state := state_closed\<rparr>, calls := calls w @ [(h, onError (m_parent (chan w)) message)]\<rparr>) \<and>
     reportPaused w = Inr (w\<lparr>calls := calls w @ [(h, onPaused (m_parent (chan w)))]\<rparr>) \<and>
     reportResumed w = Inr (w\<lparr>calls := calls w @ [(h, onResumed (m_parent (chan w)))]\<rparr>) \<and>
     reportReady w = Inr (w\<lparr>calls := calls w @ [(h, onReady (m_parent (chan w)))]\<rparr>) \<and>
     reportExchangeDeclared w = Inr (w\<lparr>calls := calls w @ [(h, onExchangeDeclared (m_parent (chan w)))]\<rparr>) \<and>
     reportExchangeDeleted w = Inr (w\<lparr>calls := calls w @ [(h, onExchangeDeleted (m_parent (chan w)))]\<rparr>) \<and>
     reportExchangeBound w = Inr (w\<lparr>calls := calls w @ [(h, onExchangeBound (m_parent (chan w)))]\<rparr>) \<and>
     reportExchangeUnbound w = Inr (w\<lparr>calls := calls w @ [(h, onExchangeUnbound (m_parent (chan w)))]\<rparr>) \<and>
     reportQueueDeclared queueName messageCount consumerCount w = Inr (w\<lparr>calls := calls w @ [(h, onQueueDeclared (m_parent (chan w)) queueName messageCount consumerCount)]\<rparr>) \<and>
     reportQueueBound w = Inr (w\<lparr>calls := calls w @ [(h, onQueueBound (m_parent (chan w)))]\<rparr>) \<and>
     reportQueueUnbound w = Inr (w\<lparr>calls := calls w @ [(h, onQueueUnbound (m_parent (chan w)))]\<rparr>) \<and>
     reportQueueDeleted messageCount w = Inr (w\<lparr>calls := calls w @ [(h, onQueueDeleted (m_parent (chan w)) messageCount)]\<rparr>) \<and>
     reportQueuePurged messageCount w = Inr (w\<lparr>calls := calls w @ [(h, onQueuePurged (m_parent (chan w)) messageCount)]\<rparr>)"
  using assms unfolding report_defs by (simp add: inform_present)

theorem report_calls_matching_callback_witness:
  "m_handler (chan observed) = Some 3 \<and>
   reportQueueDeclared ''q1'' 0 0 observed =
     Inr (observed\<lparr>calls := [(3, onQueueDeclared (Some 1) ''q1'' 0 0)]\<rparr>) \<and>
   reportQueueDeleted 7 observed = Inr (observed\<lparr>calls := [(3, onQueueDeleted (Some 1) 7)]\<rparr>) \<and>
   reportQueuePurged 7 observed = Inr (observed\<lparr>calls := [(3, onQueuePurged (Some 1) 7)]\<rparr>) \<and>
   reportQueueBound observed = Inr (observed\<lparr>calls := [(3, onQueueBound (Some 1))]\<rparr>)"
  using report_calls_matching_callback
    [where w = observed and h = 3 and message = "''gone''" and queueName = "''q1''"
       and messageCount = 0 and consumerCount = 0]
    report_calls_matching_callback
    [where w = observed and h = 3 and message = "''gone''" and queueName = "''q1''"
       and messageCount = 7 and consumerCount = 0]
  by (simp add: observed_def)

text \<open>
  Claim C7. On a closed channel \<open>close\<close> returns false and hands no frame to the
  connection. Otherwise it hands the channel-close frame of this channel to the
  connection and returns whether the connection took it; the channel object is as
  before, still connected.
\<close>

theorem close_result:
  "(m_state (chan w) = state_closed \<longrightarrow> close conn w = (False, w)) \<and>
   (m_state (chan w) \<noteq> state_closed \<longrightarrow>
      close conn w =
        (conn (sent w) (ChannelCloseFrame (m_id (chan w))) \<noteq> 0,
         w\<lparr>sent := sent w @ [ChannelCloseFrame (m_id (chan w))]\<rparr>))"
  by (cases "m_state (chan w)")
     (simp_all add: close_def request_def send_def connected_def)

theorem close_result_witness:
  "close accepting closed_before = (False, closed_before) \<and>
   close accepting observed = (True, observed\<lparr>sent := [ChannelCloseFrame 1]\<rparr>) \<and>
   close failing observed = (False, observed\<lparr>sent := [ChannelCloseFrame 1]\<rparr>)"
  using close_result [of closed_before accepting] close_result [of observed accepting]
    close_result [of observed failing]
  by (simp add: closed_before_def observed_def accepting_def failing_def)

text \<open>
  Claim C9. On a channel that is closed already, \<open>reportClosed\<close> and
  \<open>reportChannelError\<close> return normally and leave the channel object as it was, and if
  a handler is attached its \<open>onClosed\<close> or \<open>onError\<close> is called once more.
\<close>

theorem report_on_closed_channel:
  assumes "m_state (chan w) = state_closed"
  shows "\<exists>w1 w2. reportClosed w = Inr w1 \<and> reportChannelError message w = Inr w2 \<and>
     chan w1 = chan w \<and> chan w2 = chan w \<and>
     (\<forall>h. m_handler (chan w) = Some h \<longrightarrow>
        calls w1 = calls w @ [(h, onClosed (m_parent (chan w)))] \<and>
        calls w2 = calls w @ [(h, onError (m_parent (chan w)) message)])"
proof -
  have same: "w\<lparr>chan := (chan w)\<lparr>m_state := state_closed\<rparr>\<rparr> = w"
    using assms by simp
  show ?thesis
  proof (cases "m_handler (chan w)")
    case None
    then show ?thesis
      by (simp add: reportClosed_def reportChannelError_def same inform_absent)
  next
    case (Some h)
    then show ?thesis
      by (simp add: reportClosed_def reportChannelError_def same inform_present)
  qed
qed

theorem report_on_closed_channel_witness:
  "m_state (chan closed_before) = state_closed \<and>
   (\<exists>w1 w2. reportClosed closed_before = Inr w1 \<and>
      reportChannelError ''gone'' closed_before = Inr w2 \<and>
      chan w1 = chan closed_before \<and> chan w2 = chan closed_before \<and>
      calls w1 = [(3, onClosed (Some 1)), (3, onClosed (Some 1))] \<and>
      calls w2 = [(3, onClosed (Some 1)), (3, onError (Some 1) ''gone'')])"
  using report_on_closed_channel [of closed_before "''gone''"]
  by (simp add: closed_before_def)

text \<open>
  Claim C10. The result of \<open>send\<close> is the connection's answer, a \<open>size_t\<close>: read as
  a number it is never negative, and it is at most zero only when it is zero.
\<close>

theorem send_result_unsigned:
  "fst (send conn frame w) = conn (sent w) frame \<and>
   0 \<le> uint (fst (send conn frame w)) \<and>
   \<not> uint (fst (send conn frame w)) < 0 \<and>
   (uint (fst (send conn frame w)) \<le> 0) = (fst (send conn frame w) = 0)"
  by (simp add: send_def uint_0_iff)

theorem send_result_unsigned_witness:
  "fst (send accepting (ChannelCloseFrame 1) observed) = 8 \<and>
   fst (send failing (ChannelCloseFrame 1) observed) = 0 \<and>
   0 \<le> uint (fst (send failing (ChannelCloseFrame 1) observed))"
  using send_result_unsigned [of accepting "ChannelCloseFrame 1" observed]
    send_result_unsigned [of failing "ChannelCloseFrame 1" observed]
  by (simp add: accepting_def failing_def)

end
